theory Spec2Isabelle
  imports Complex_Main
begin

section \<open>Scene model of the component canvas (src/app.js)\<close>

text \<open>
  The editor keeps its scene in module-level variables: \<open>files\<close> (the top-level node
  array), \<open>connections\<close>, the selection variables and the undo \<open>history\<close>. Nodes are
  JavaScript objects compared with \<open>===\<close>, so every node carries its object identity
  \<open>ref\<close>; two node values denote the same object exactly when their \<open>ref\<close> agree, and a
  variable that holds a node reference holds the \<open>ref\<close>. Numbers are modelled as reals.

  A field that the source leaves \<open>undefined\<close> and only ever tests for truthiness is
  modelled by its falsy value: \<open>expanded\<close> by \<open>False\<close>, \<open>props\<close>, \<open>hooks\<close>, \<open>state\<close> and
  \<open>events\<close> by the empty list, \<open>innerHtml\<close> and \<open>description\<close> by the empty string.
  \<open>children\<close> is different: the source calls methods on it, so an absent \<open>children\<close>
  field (the event boxes of \<open>createHookFromInput\<close> have none) is \<open>None\<close>.
\<close>

record attrs =
  name :: string
  nx :: real
  ny :: real
  nw :: real
  nh :: real
  expanded :: bool
  ntype :: string
  pattern :: string
  props :: "(string \<times> string) list"
  nstate :: "string list"
  hooks :: "string list"
  events :: "(string \<times> string) list"
  nnotes :: string
  innerHtml :: string
  description :: string
  isEventBox :: bool

datatype node = Node (ref: nat) (attrs: attrs) (children: "node list option")

text \<open>A connection object: its own identity, the \<open>id\<close> timestamp and its two endpoints.
  The cached \<open>fromPoint\<close>/\<open>toPoint\<close> (floating-point trigonometry of
  \<open>getConnectionPoint\<close>) are not part of the model.\<close>

record connection =
  cref :: nat
  cid :: nat
  cfrom :: nat
  cto :: nat

datatype error = TypeError | DetachedReference

subsection \<open>Looking a node up by identity\<close>

fun findNode :: "nat \<Rightarrow> node list \<Rightarrow> node option"
  and findNodeIn :: "nat \<Rightarrow> node \<Rightarrow> node option" where
  "findNode r [] = None"
| "findNode r (f # fs) =
     (case findNodeIn r f of Some n \<Rightarrow> Some n | None \<Rightarrow> findNode r fs)"
| "findNodeIn r (Node q a ch) =
     (if q = r then Some (Node q a ch)
      else (case ch of None \<Rightarrow> None | Some cs \<Rightarrow> findNode r cs))"

text \<open>All object identities of a forest, parents before their children.\<close>

fun allRefs :: "node list \<Rightarrow> nat list"
  and nodeRefs :: "node \<Rightarrow> nat list" where
  "allRefs [] = []"
| "allRefs (f # fs) = nodeRefs f @ allRefs fs"
| "nodeRefs (Node q a ch) = q # (case ch of None \<Rightarrow> [] | Some cs \<Rightarrow> allRefs cs)"

subsection \<open>Hit testing\<close>

text \<open>\<open>getParentComponent\<close>: the \<open>from\<close> node of the first connection that ends in the
  event box. The source returns the object itself; the model looks it up in the scene, so
  an endpoint that is no longer part of the scene counts as no parent.\<close>

definition getParentComponent :: "connection list \<Rightarrow> node list \<Rightarrow> node \<Rightarrow> node option" where
  "getParentComponent conns scn eventBox =
     (if \<not> isEventBox (attrs eventBox) then None
      else (case find (\<lambda>conn. cto conn = ref eventBox) conns of
              None \<Rightarrow> None
            | Some conn \<Rightarrow> findNode (cfrom conn) scn))"

text \<open>The bounding-box test of the hit tests. Every node is created with its four
  geometry fields, so the guards \<open>file.x !== undefined\<close> and the like always hold and are
  left out.\<close>

definition inBox :: "real \<Rightarrow> real \<Rightarrow> attrs \<Rightarrow> bool" where
  "inBox px py a \<longleftrightarrow> px \<ge> nx a \<and> px \<le> nx a + nw a \<and> py \<ge> ny a \<and> py \<le> ny a + nh a"

definition hiddenEventBox :: "connection list \<Rightarrow> node list \<Rightarrow> node \<Rightarrow> bool" where
  "hiddenEventBox conns scn file \<longleftrightarrow>
     isEventBox (attrs file) \<and>
     (case getParentComponent conns scn file of
        None \<Rightarrow> False
      | Some parentComponent \<Rightarrow> \<not> expanded (attrs parentComponent))"

text \<open>\<open>findFileAtPosition\<close> walks the array from its last index down and returns at the
  first hit. The recursion on the tail first is that order: the later elements are tried
  before the head. \<open>findFileAtNode\<close> is the loop body for one \<open>file\<close>.\<close>

fun findFileAtPosition ::
    "connection list \<Rightarrow> node list \<Rightarrow> real \<Rightarrow> real \<Rightarrow> node list \<Rightarrow> node option"
  and findFileAtNode ::
    "connection list \<Rightarrow> node list \<Rightarrow> real \<Rightarrow> real \<Rightarrow> node \<Rightarrow> node option" where
  "findFileAtPosition conns scn px py [] = None"
| "findFileAtPosition conns scn px py (f # fs) =
     (case findFileAtPosition conns scn px py fs of
        Some hit \<Rightarrow> Some hit
      | None \<Rightarrow> findFileAtNode conns scn px py f)"
| "findFileAtNode conns scn px py (Node q a ch) =
     (if hiddenEventBox conns scn (Node q a ch) then None
      else (case (case ch of
                    None \<Rightarrow> None
                  | Some cs \<Rightarrow> if cs \<noteq> [] then findFileAtPosition conns scn px py cs else None) of
              Some nested \<Rightarrow> Some nested
            | None \<Rightarrow> if inBox px py a then Some (Node q a ch) else None))"

text \<open>\<open>isDescendantOf(potentialChild, potentialParent)\<close>.\<close>

fun isDescendantOf :: "node \<Rightarrow> node \<Rightarrow> bool"
  and isDescendantIn :: "node \<Rightarrow> node list \<Rightarrow> bool" where
  "isDescendantOf potentialChild (Node q a ch) =
     (case ch of None \<Rightarrow> False | Some cs \<Rightarrow> isDescendantIn potentialChild cs)"
| "isDescendantIn potentialChild [] = False"
| "isDescendantIn potentialChild (child # rest) =
     (if ref child = ref potentialChild then True
      else if isDescendantOf potentialChild child then True
      else isDescendantIn potentialChild rest)"

text \<open>\<open>findDropTarget\<close>: the first loop (\<open>findDropNested\<close>) descends into every element
  other than the dragged node, the second (\<open>find\<close>) tests the elements of this level.\<close>

definition dropCandidate :: "real \<Rightarrow> real \<Rightarrow> node \<Rightarrow> node \<Rightarrow> bool" where
  "dropCandidate px py draggedFile file \<longleftrightarrow>
     ref file \<noteq> ref draggedFile \<and> \<not> isEventBox (attrs file) \<and> inBox px py (attrs file) \<and>
     \<not> isDescendantOf file draggedFile"

fun findDropTarget :: "real \<Rightarrow> real \<Rightarrow> node \<Rightarrow> node list \<Rightarrow> node option"
  and findDropNested :: "real \<Rightarrow> real \<Rightarrow> node \<Rightarrow> node list \<Rightarrow> node option" where
  "findDropTarget px py draggedFile lst =
     (if isEventBox (attrs draggedFile) then None
      else (case findDropNested px py draggedFile lst of
              Some nested \<Rightarrow> Some nested
            | None \<Rightarrow> find (dropCandidate px py draggedFile) lst))"
| "findDropNested px py draggedFile [] = None"
| "findDropNested px py draggedFile (Node q a ch # fs) =
     (case (case ch of
              None \<Rightarrow> None
            | Some cs \<Rightarrow>
                if q \<noteq> ref draggedFile \<and> cs \<noteq> [] \<and> \<not> isEventBox a
                then findDropTarget px py draggedFile cs else None) of
        Some nested \<Rightarrow> Some nested
      | None \<Rightarrow> findDropNested px py draggedFile fs)"

subsection \<open>Parent lookup and removal\<close>

text \<open>\<open>findParentOfComponent(targetFile, searchList, parent = null)\<close> returns an object
  \<open>{parent, list}\<close> whose \<open>parent\<close> is \<open>undefined\<close> (not found), \<open>null\<close> (found in the
  top-level list) or the parent node. \<open>plist\<close> is the array \<open>list\<close>, by value; the array it
  stands for is \<open>files\<close> when \<open>parent\<close> is \<open>null\<close> and the parent's \<open>children\<close> otherwise.
  The last argument of \<open>findParentLoop\<close> is the rest of \<open>searchList\<close> still to visit.\<close>

datatype jsParent = Undefined | Null | Obj node

record parentInfo =
  parent :: jsParent
  plist :: "node list option"

fun findParentLoop :: "nat \<Rightarrow> node list \<Rightarrow> jsParent \<Rightarrow> node list \<Rightarrow> parentInfo" where
  "findParentLoop targetFile searchList par [] = \<lparr>parent = Undefined, plist = None\<rparr>"
| "findParentLoop targetFile searchList par (Node q a ch # fs) =
     (if q = targetFile then \<lparr>parent = par, plist = Some searchList\<rparr>
      else (case ch of
              None \<Rightarrow> findParentLoop targetFile searchList par fs
            | Some cs \<Rightarrow>
                if cs \<noteq> [] then
                  (let found = findParentLoop targetFile cs (Obj (Node q a ch)) cs
                   in if parent found \<noteq> Undefined then found
                      else findParentLoop targetFile searchList par fs)
                else findParentLoop targetFile searchList par fs))"

definition findParentOfComponent :: "nat \<Rightarrow> node list \<Rightarrow> jsParent \<Rightarrow> parentInfo" where
  "findParentOfComponent targetFile searchList par =
     findParentLoop targetFile searchList par searchList"

text \<open>\<open>findParentList\<close>, the sibling helper that returns the containing array itself.\<close>

fun findParentList :: "nat \<Rightarrow> node list \<Rightarrow> (error + node list option)"
  and findParentListLoop :: "nat \<Rightarrow> node list \<Rightarrow> (error + node list option)" where
  "findParentList targetFile searchList =
     (if targetFile \<in> ref ` set searchList then Inr (Some searchList)
      else findParentListLoop targetFile searchList)"
| "findParentListLoop targetFile [] = Inr None"
| "findParentListLoop targetFile (Node q a ch # fs) =
     (case ch of
        None \<Rightarrow> Inl TypeError
      | Some cs \<Rightarrow>
          (case findParentList targetFile cs of
             Inl e \<Rightarrow> Inl e
           | Inr (Some found) \<Rightarrow> Inr (Some found)
           | Inr None \<Rightarrow> findParentListLoop targetFile fs))"

text \<open>\<open>list.indexOf(target)\<close> followed by \<open>list.splice(index, 1)\<close>: drop the first element
  that is the target object.\<close>

fun spliceOut :: "nat \<Rightarrow> node list \<Rightarrow> node list" where
  "spliceOut target [] = []"
| "spliceOut target (f # fs) = (if ref f = target then fs else f # spliceOut target fs)"

text \<open>Apply an in-place update to the object with the given identity, wherever it sits
  in the forest.\<close>

fun modifyNode :: "nat \<Rightarrow> (node \<Rightarrow> node) \<Rightarrow> node list \<Rightarrow> node list"
  and modifyIn :: "nat \<Rightarrow> (node \<Rightarrow> node) \<Rightarrow> node \<Rightarrow> node" where
  "modifyNode r upd [] = []"
| "modifyNode r upd (f # fs) = modifyIn r upd f # modifyNode r upd fs"
| "modifyIn r upd (Node q a ch) =
     (if q = r then upd (Node q a ch)
      else Node q a (case ch of None \<Rightarrow> None | Some cs \<Rightarrow> Some (modifyNode r upd cs)))"

subsection \<open>Height recomputation\<close>

text \<open>\<open>s.split('\n')\<close> and the truthiness of \<open>s.trim()\<close> (false when only white space
  is left; characters are bytes here, so the test covers the ASCII white space).\<close>

fun splitLines :: "string \<Rightarrow> string list" where
  "splitLines [] = [[]]"
| "splitLines (c # cs) =
     (if c = CHR 0x0A then [] # splitLines cs
      else (case splitLines cs of [] \<Rightarrow> [[c]] | l # ls \<Rightarrow> (c # l) # ls))"

definition jsWhitespace :: "char \<Rightarrow> bool" where
  "jsWhitespace c \<longleftrightarrow> c \<in> {CHR 0x20, CHR 0x09, CHR 0x0A, CHR 0x0B, CHR 0x0C, CHR 0x0D}"

definition trimmedTruthy :: "string \<Rightarrow> bool" where
  "trimmedTruthy s \<longleftrightarrow> \<not> list_all jsWhitespace s"

definition innerHtmlHeight :: "string \<Rightarrow> real" where
  "innerHtmlHeight s =
     (let innerHtmlLines = splitLines s;
          contentLines = length (filter trimmedTruthy innerHtmlLines);
          emptyLines = length innerHtmlLines - contentLines
      in real contentLines * 16 + real emptyLines * 12)"

definition hasChildren :: "node \<Rightarrow> bool" where
  "hasChildren n \<longleftrightarrow> (case children n of None \<Rightarrow> False | Some cs \<Rightarrow> cs \<noteq> [])"

fun calculateChildJSXHeight :: "node \<Rightarrow> real"
  and childrenJSXHeight :: "node list \<Rightarrow> real" where
  "calculateChildJSXHeight (Node q a ch) =
     (case ch of None \<Rightarrow> 0 | Some cs \<Rightarrow> childrenJSXHeight cs)"
| "childrenJSXHeight [] = 0"
| "childrenJSXHeight (child # rest) =
     (let childHasInnerHtml = trimmedTruthy (innerHtml (attrs child));
          hasChildProps = (props (attrs child) \<noteq> []);
          tagLines = (if hasChildProps
                      then 20 + real (length (props (attrs child))) * 20 + 25 else 25)
      in (if hasChildren child \<or> childHasInnerHtml
          then tagLines
               + (if childHasInnerHtml then innerHtmlHeight (innerHtml (attrs child)) else 0)
               + (if hasChildren child then calculateChildJSXHeight child else 0)
               + 25
          else tagLines))
     + childrenJSXHeight rest"

definition updateParentHeight :: "node \<Rightarrow> node" where
  "updateParentHeight parentComponent =
     (let a = attrs parentComponent;
          hasHooks = (hooks a \<noteq> []);
          hasProps = (props a \<noteq> []);
          hasInnerHtml = trimmedTruthy (innerHtml a);
          hasContent = (hasChildren parentComponent \<or> hasHooks \<or> hasInnerHtml);
          header = 60 + (if hasProps then real (length (props a)) * 20 + 20 else 0);
          totalHeight =
            (if \<not> expanded a \<or> \<not> hasContent then header
             else header
                  + (if hasInnerHtml then innerHtmlHeight (innerHtml a) + 10 else 0)
                  + (if hasHooks then real (length (hooks a)) * 16 + 26 else 0)
                  + (if hasChildren parentComponent
                     then calculateChildJSXHeight parentComponent else 0)
                  + 40)
      in Node (ref parentComponent) (a\<lparr>nh := totalHeight\<rparr>) (children parentComponent))"

fun repositionChildrenInParent :: "node \<Rightarrow> node"
  and repositionChildren :: "node list \<Rightarrow> node list" where
  "repositionChildrenInParent (Node q a ch) =
     Node q (attrs (updateParentHeight (Node q a ch)))
       (case ch of None \<Rightarrow> None | Some cs \<Rightarrow> Some (repositionChildren cs))"
| "repositionChildren [] = []"
| "repositionChildren (child # rest) =
     (if hasChildren child then repositionChildrenInParent child else child)
     # repositionChildren rest"

text \<open>\<open>updateAllParentHeights\<close> reads \<open>file.children.length\<close> of every expanded element
  and throws on one without \<open>children\<close>; the heights written before the throw stay.\<close>

fun updateAllParentHeights :: "node list \<Rightarrow> node list \<times> error option" where
  "updateAllParentHeights [] = ([], None)"
| "updateAllParentHeights (Node q a ch # fs) =
     (if expanded a then
        (let a' = attrs (updateParentHeight (Node q a ch)) in
         case ch of
           None \<Rightarrow> (Node q a' ch # fs, Some TypeError)
         | Some cs \<Rightarrow>
             (case (if cs \<noteq> [] then updateAllParentHeights cs else (cs, None)) of
                (cs', Some e) \<Rightarrow> (Node q a' (Some cs') # fs, Some e)
              | (cs', None) \<Rightarrow>
                  (case updateAllParentHeights fs of
                     (fs', e) \<Rightarrow> (Node q a' (Some cs') # fs', e))))
      else (case updateAllParentHeights fs of (fs', e) \<Rightarrow> (Node q a ch # fs', e)))"

subsection \<open>The scene and its undo history\<close>

text \<open>A history entry of \<open>saveState\<close>. \<open>files\<close> and \<open>connections\<close> go through
  \<open>JSON.parse(JSON.stringify(...))\<close>: plain data without object identity, in which every
  connection embeds copies of its two endpoint nodes. The three selection fields are the
  live references.\<close>

datatype json_node = JNode (jattrs: attrs) (jchildren: "json_node list option")

record json_connection =
  jid :: nat
  jfrom :: "json_node option"
  jto :: "json_node option"

record snapshot =
  sfiles :: "json_node list"
  sconnections :: "json_connection list"
  sselectedFile :: "nat option"
  sselectedChild :: "nat option"
  smultiSelectedFiles :: "nat list"

text \<open>The module-level variables. \<open>nextRef\<close> is the allocator of object identities (it has
  no counterpart in the source, where \<open>{...}\<close> creates a new object). The variables that
  only feed the rendering (\<open>hoveredFile\<close>, \<open>currentDropTarget\<close>, \<open>tempConnectionEnd\<close>,
  \<open>hoveredConnection\<close>, the cursor) are left out, and so is the \<open>draw()\<close> call that ends the
  handlers: it rewrites geometry fields and persists the scene.\<close>

record scene =
  files :: "node list"
  connections :: "connection list"
  selectedFile :: "nat option"
  selectedChild :: "nat option"
  multiSelectedFiles :: "nat list"
  selectedConnection :: "connection option"
  isConnecting :: bool
  connectionStart :: "nat option"
  draggingFile :: "nat option"
  offsetX :: real
  offsetY :: real
  isAreaSelecting :: bool
  selectionAreaStart :: "real \<times> real"
  selectionAreaEnd :: "real \<times> real"
  history :: "snapshot list"
  nextRef :: nat

definition maxHistorySize :: nat where
  "maxHistorySize = 30"

definition initialScene :: scene where
  "initialScene =
     \<lparr>files = [], connections = [], selectedFile = None, selectedChild = None,
      multiSelectedFiles = [], selectedConnection = None, isConnecting = False,
      connectionStart = None, draggingFile = None, offsetX = 0, offsetY = 0,
      isAreaSelecting = False, selectionAreaStart = (0, 0), selectionAreaEnd = (0, 0),
      history = [], nextRef = 0\<rparr>"

fun toJSON :: "node \<Rightarrow> json_node"
  and toJSONList :: "node list \<Rightarrow> json_node list" where
  "toJSON (Node q a ch) =
     JNode a (case ch of None \<Rightarrow> None | Some cs \<Rightarrow> Some (toJSONList cs))"
| "toJSONList [] = []"
| "toJSONList (f # fs) = toJSON f # toJSONList fs"

text \<open>Parsed JSON becomes fresh objects; each gets a new identity.\<close>

fun fromJSON :: "nat \<Rightarrow> json_node \<Rightarrow> node \<times> nat"
  and fromJSONList :: "nat \<Rightarrow> json_node list \<Rightarrow> node list \<times> nat" where
  "fromJSON n (JNode a ch) =
     (case ch of
        None \<Rightarrow> (Node n a None, Suc n)
      | Some cs \<Rightarrow> (case fromJSONList (Suc n) cs of (cs', n') \<Rightarrow> (Node n a (Some cs'), n')))"
| "fromJSONList n [] = ([], n)"
| "fromJSONList n (j # js) =
     (case fromJSON n j of
        (f, n') \<Rightarrow> (case fromJSONList n' js of (fs, n'') \<Rightarrow> (f # fs, n'')))"

text \<open>An endpoint that is no longer part of the scene has no value in the model; its copy
  is \<open>None\<close> and matches nothing when the connections are rebuilt.\<close>

definition connectionToJSON :: "node list \<Rightarrow> connection \<Rightarrow> json_connection" where
  "connectionToJSON scn conn =
     \<lparr>jid = cid conn,
      jfrom = map_option toJSON (findNode (cfrom conn) scn),
      jto = map_option toJSON (findNode (cto conn) scn)\<rparr>"

text \<open>\<open>currentState\<close> is the object \<open>state\<close> that \<open>saveState\<close> builds from the scene.\<close>

definition currentState :: "scene \<Rightarrow> snapshot" where
  "currentState s =
     \<lparr>sfiles = toJSONList (files s),
      sconnections = map (connectionToJSON (files s)) (connections s),
      sselectedFile = selectedFile s,
      sselectedChild = selectedChild s,
      smultiSelectedFiles = multiSelectedFiles s\<rparr>"

definition saveState :: "scene \<Rightarrow> scene" where
  "saveState s =
     (let pushed = history s @ [currentState s]
      in s\<lparr>history := (if length pushed > maxHistorySize then tl pushed else pushed)\<rparr>)"

fun flattenComponents :: "node list \<Rightarrow> node list"
  and flattenComponent :: "node \<Rightarrow> node list" where
  "flattenComponents [] = []"
| "flattenComponents (component # rest) = flattenComponent component @ flattenComponents rest"
| "flattenComponent (Node q a ch) =
     Node q a ch # (case ch of None \<Rightarrow> [] | Some cs \<Rightarrow> flattenComponents cs)"

definition findComponentByProperties :: "node list \<Rightarrow> json_node option \<Rightarrow> node option" where
  "findComponentByProperties allComponents savedComponent =
     (case savedComponent of
        None \<Rightarrow> None
      | Some saved \<Rightarrow>
          find (\<lambda>component.
                  name (attrs component) = name (jattrs saved) \<and>
                  nx (attrs component) = nx (jattrs saved) \<and>
                  ny (attrs component) = ny (jattrs saved) \<and>
                  ntype (attrs component) = ntype (jattrs saved)) allComponents)"

fun reconstructLoop ::
    "node list \<Rightarrow> nat \<Rightarrow> json_connection list \<Rightarrow> connection list \<times> nat" where
  "reconstructLoop allComponents n [] = ([], n)"
| "reconstructLoop allComponents n (savedConnection # rest) =
     (case (findComponentByProperties allComponents (jfrom savedConnection),
            findComponentByProperties allComponents (jto savedConnection)) of
        (Some fromComponent, Some toComponent) \<Rightarrow>
          (case reconstructLoop allComponents (Suc n) rest of
             (conns, n') \<Rightarrow>
               (\<lparr>cref = n, cid = jid savedConnection,
                 cfrom = ref fromComponent, cto = ref toComponent\<rparr> # conns, n'))
      | _ \<Rightarrow> reconstructLoop allComponents n rest)"

definition reconstructConnections ::
    "nat \<Rightarrow> json_connection list \<Rightarrow> node list \<Rightarrow> connection list \<times> nat" where
  "reconstructConnections n savedConnections loadedFiles =
     reconstructLoop (flattenComponents loadedFiles) n savedConnections"

definition undo :: "scene \<Rightarrow> scene" where
  "undo s =
     (if history s = [] then s
      else (let previousState = last (history s) in
            case fromJSONList (nextRef s) (sfiles previousState) of
              (restored, n) \<Rightarrow>
                (case reconstructConnections n (sconnections previousState) restored of
                   (conns, n') \<Rightarrow>
                     s\<lparr>history := butlast (history s),
                       files := restored,
                       connections := conns,
                       selectedFile := sselectedFile previousState,
                       selectedChild := sselectedChild previousState,
                       multiSelectedFiles := smultiSelectedFiles previousState,
                       nextRef := n'\<rparr>)))"

subsection \<open>Selection helpers\<close>

definition clearSelection :: "scene \<Rightarrow> scene" where
  "clearSelection s = s\<lparr>selectedFile := None, selectedChild := None, multiSelectedFiles := []\<rparr>"

definition isComponentSelected :: "scene \<Rightarrow> nat \<Rightarrow> bool" where
  "isComponentSelected s component \<longleftrightarrow>
     selectedFile s = Some component \<or> component \<in> set (multiSelectedFiles s)"

definition addToMultiSelection :: "scene \<Rightarrow> nat \<Rightarrow> scene" where
  "addToMultiSelection s component =
     s\<lparr>multiSelectedFiles :=
         (if component \<in> set (multiSelectedFiles s) then multiSelectedFiles s
          else multiSelectedFiles s @ [component]),
       selectedFile := None, selectedChild := None\<rparr>"

definition removeFromMultiSelection :: "scene \<Rightarrow> nat \<Rightarrow> scene" where
  "removeFromMultiSelection s component =
     s\<lparr>multiSelectedFiles := remove1 component (multiSelectedFiles s)\<rparr>"

definition resetConnectionMode :: "scene \<Rightarrow> scene" where
  "resetConnectionMode s = s\<lparr>connectionStart := None, isConnecting := False\<rparr>"

definition isInSelectionArea :: "attrs \<Rightarrow> real \<Rightarrow> real \<Rightarrow> real \<Rightarrow> real \<Rightarrow> bool" where
  "isInSelectionArea component startX startY endX endY \<longleftrightarrow>
     \<not> (nx component + nw component < min startX endX \<or>
        nx component > max startX endX \<or>
        ny component + nh component < min startY endY \<or>
        ny component > max startY endY)"

fun selectComponentsInArea :: "node list \<Rightarrow> real \<Rightarrow> real \<Rightarrow> real \<Rightarrow> real \<Rightarrow> nat list"
  and checkComponent :: "node \<Rightarrow> real \<Rightarrow> real \<Rightarrow> real \<Rightarrow> real \<Rightarrow> nat list" where
  "selectComponentsInArea [] startX startY endX endY = []"
| "selectComponentsInArea (component # rest) startX startY endX endY =
     checkComponent component startX startY endX endY
     @ selectComponentsInArea rest startX startY endX endY"
| "checkComponent (Node q a ch) startX startY endX endY =
     (if isInSelectionArea a startX startY endX endY then [q] else [])
     @ (case ch of None \<Rightarrow> [] | Some cs \<Rightarrow> selectComponentsInArea cs startX startY endX endY)"

subsection \<open>Removal\<close>

text \<open>\<open>removeFile(target, list)\<close>. The array \<open>list\<close> is passed and returned by value; the
  caller stores the result where the array lives. \<open>removeFileLoop\<close> is the \<open>for\<close> loop
  over the elements, which calls \<open>removeFile(target, file.children)\<close> and so throws at
  \<open>list.indexOf\<close> on an element without \<open>children\<close>.\<close>

definition dropConnectionsOf :: "nat \<Rightarrow> scene \<Rightarrow> scene" where
  "dropConnectionsOf target s =
     s\<lparr>connections := filter (\<lambda>conn. cfrom conn \<noteq> target \<and> cto conn \<noteq> target) (connections s),
       selectedConnection :=
         (case selectedConnection s of
            None \<Rightarrow> None
          | Some sc \<Rightarrow> if cfrom sc = target \<or> cto sc = target then None else Some sc)\<rparr>"

fun removeFile :: "nat \<Rightarrow> node list \<Rightarrow> scene \<Rightarrow> error + (bool \<times> node list \<times> scene)"
  and removeFileLoop :: "nat \<Rightarrow> node list \<Rightarrow> scene \<Rightarrow> error + (bool \<times> node list \<times> scene)" where
  "removeFile target lst s =
     (if target \<in> ref ` set lst
      then Inr (True, spliceOut target lst, dropConnectionsOf target s)
      else removeFileLoop target lst s)"
| "removeFileLoop target [] s = Inr (False, [], s)"
| "removeFileLoop target (Node q a ch # fs) s =
     (case ch of
        None \<Rightarrow> Inl TypeError
      | Some cs \<Rightarrow>
          (case removeFile target cs s of
             Inl e \<Rightarrow> Inl e
           | Inr (found, cs', s') \<Rightarrow>
               if found then Inr (True, Node q a (Some cs') # fs, s')
               else (case removeFileLoop target fs s of
                       Inl e \<Rightarrow> Inl e
                     | Inr (found', fs', s'') \<Rightarrow> Inr (found', Node q a ch # fs', s''))))"

subsection \<open>Creating nodes\<close>

definition createNewComponent :: "nat \<Rightarrow> string \<Rightarrow> real \<Rightarrow> real \<Rightarrow> node" where
  "createNewComponent r nm px py =
     Node r \<lparr>name = nm, nx = px, ny = py, nw = 160, nh = 40, expanded = True,
             ntype = ''Component'', pattern = [], props = [], nstate = [], hooks = [],
             events = [], nnotes = [], innerHtml = [], description = [],
             isEventBox = False\<rparr> (Some [])"

text \<open>\<open>finishInput\<close>; \<open>nm\<close> is the trimmed text of the input field.\<close>

definition finishInput :: "scene \<Rightarrow> string \<Rightarrow> real \<Rightarrow> real \<Rightarrow> scene" where
  "finishInput s nm px py =
     (if nm = [] then s
      else (let s1 = saveState s
            in s1\<lparr>files := files s1 @ [createNewComponent (nextRef s1) nm px py],
                  nextRef := Suc (nextRef s1)\<rparr>))"

text \<open>\<open>createHookFromInput\<close>; \<open>hookName\<close> and \<open>hookDescription\<close> are the values read from
  the two input fields (with their defaults), \<open>now\<close> is \<open>Date.now()\<close>. The event box is
  built without \<open>children\<close> and without \<open>expanded\<close>. The handler reads the geometry of the
  selected object; a selection that is no longer part of the scene has no value in the
  model, which reports \<open>DetachedReference\<close> there.\<close>

definition createHookFromInput :: "scene \<Rightarrow> string \<Rightarrow> string \<Rightarrow> nat \<Rightarrow> scene \<times> error option" where
  "createHookFromInput s hookName hookDescription now =
     (case selectedFile s of
        None \<Rightarrow> (s, None)
      | Some sf \<Rightarrow>
          (case findNode sf (files s) of
             None \<Rightarrow> (s, Some DetachedReference)
           | Some sel \<Rightarrow>
               (let s1 = saveState s;
                    hookBox = Node (nextRef s1)
                      \<lparr>name = hookName,
                       nx = nx (attrs sel) + nw (attrs sel) + 250, ny = ny (attrs sel) + 0,
                       nw = 200, nh = 60, expanded = False, ntype = ''HOOK'', pattern = [],
                       props = [], nstate = [], hooks = [], events = [], nnotes = [],
                       innerHtml = [], description = hookDescription, isEventBox = True\<rparr> None;
                    newConnection = \<lparr>cref = Suc (nextRef s1), cid = now,
                                      cfrom = sf, cto = ref hookBox\<rparr>
                in (s1\<lparr>files := files s1 @ [hookBox],
                        connections := connections s1 @ [newConnection],
                        nextRef := Suc (Suc (nextRef s1))\<rparr>, None))))"

subsection \<open>Duplication\<close>

text \<open>\<open>deepCloneComponent\<close> calls \<open>component.children.map\<close>, which throws on a node
  without \<open>children\<close>. The clone copies the listed fields only: \<open>innerHtml\<close>,
  \<open>description\<close> and \<open>isEventBox\<close> are not among them.\<close>

fun deepCloneComponent :: "nat \<Rightarrow> node \<Rightarrow> error + (node \<times> nat)"
  and deepCloneChildren :: "nat \<Rightarrow> node list \<Rightarrow> error + (node list \<times> nat)" where
  "deepCloneComponent n (Node q a ch) =
     (case ch of
        None \<Rightarrow> Inl TypeError
      | Some cs \<Rightarrow>
          (case deepCloneChildren (Suc n) cs of
             Inl e \<Rightarrow> Inl e
           | Inr (cs', n') \<Rightarrow>
               Inr (Node n \<lparr>name = name a, nx = nx a + 30, ny = ny a + 30, nw = nw a,
                            nh = nh a, expanded = expanded a, ntype = ntype a,
                            pattern = pattern a, props = props a, nstate = nstate a,
                            hooks = hooks a, events = events a, nnotes = nnotes a,
                            innerHtml = [], description = [], isEventBox = False\<rparr>
                      (Some cs'), n')))"
| "deepCloneChildren n [] = Inr ([], n)"
| "deepCloneChildren n (child # rest) =
     (case deepCloneComponent n child of
        Inl e \<Rightarrow> Inl e
      | Inr (child', n') \<Rightarrow>
          (case deepCloneChildren n' rest of
             Inl e \<Rightarrow> Inl e
           | Inr (rest', n'') \<Rightarrow> Inr (child' # rest', n'')))"

text \<open>In \<open>duplicateComponent\<close> the variable \<open>parentList\<close> receives the result of
  \<open>findParentOfComponent\<close>, an object \<open>{parent, list}\<close>. An object is truthy whatever
  its fields hold, so the \<open>if (parentList)\<close> branch is always taken, and the object has
  no \<open>push\<close> method: the call \<open>parentList.push(duplicatedFile)\<close> throws.\<close>

definition objectIsTruthy :: "parentInfo \<Rightarrow> bool" where
  "objectIsTruthy info = True"

definition duplicateComponent :: "scene \<Rightarrow> node \<Rightarrow> real \<Rightarrow> real \<Rightarrow> scene \<times> error option" where
  "duplicateComponent s originalFile px py =
     (case deepCloneComponent (nextRef s) originalFile of
        Inl e \<Rightarrow> (s, Some e)
      | Inr (clone, n') \<Rightarrow>
          (let duplicatedFile =
                 Node (ref clone) ((attrs clone)\<lparr>nx := px + 20, ny := py + 20\<rparr>) (children clone);
               s1 = s\<lparr>nextRef := n'\<rparr>;
               parentList = findParentOfComponent (ref originalFile) (files s1) Null
           in if objectIsTruthy parentList then (s1, Some TypeError)
              else (s1\<lparr>files := files s1 @ [duplicatedFile],
                       selectedFile := Some (ref duplicatedFile)\<rparr>, None)))"

subsection \<open>Expand and collapse\<close>

definition inToggleArea :: "real \<Rightarrow> real \<Rightarrow> attrs \<Rightarrow> bool" where
  "inToggleArea px py a \<longleftrightarrow>
     px \<ge> nx a + 8 \<and> px \<le> nx a + 8 + 20 \<and> py \<ge> ny a + 8 \<and> py \<le> ny a + 8 + 20"

text \<open>\<open>toggleAt(x, y, files)\<close>: every element of \<open>files\<close> is top-level, so the
  \<open>files.includes(file)\<close> test holds throughout. \<open>seen\<close> holds the elements already
  passed. The result is the return value, the array after the in-place updates and the
  exception, if one was thrown.\<close>

fun toggleLoop :: "real \<Rightarrow> real \<Rightarrow> node list \<Rightarrow> node list \<Rightarrow> bool \<times> node list \<times> error option" where
  "toggleLoop px py seen [] = (False, seen, None)"
| "toggleLoop px py seen (Node q a ch # fs) =
     (if inToggleArea px py a then
        (let a1 = a\<lparr>expanded := \<not> expanded a\<rparr> in
         if expanded a1 then
           (case ch of
              None \<Rightarrow> (True, seen @ Node q a1 ch # fs, Some TypeError)
            | Some cs \<Rightarrow>
                (let file1 = (if cs \<noteq> [] then repositionChildrenInParent (Node q a1 ch)
                              else Node q a1 ch)
                 in case updateAllParentHeights (seen @ file1 # fs) of
                      (fs', e) \<Rightarrow> (True, fs', e)))
         else (case updateAllParentHeights (seen @ Node q a1 ch # fs) of
                 (fs', e) \<Rightarrow> (True, fs', e)))
      else toggleLoop px py (seen @ [Node q a ch]) fs)"

definition toggleAt :: "real \<Rightarrow> real \<Rightarrow> node list \<Rightarrow> bool \<times> node list \<times> error option" where
  "toggleAt px py fls = toggleLoop px py [] fls"

subsection \<open>Pointer handlers\<close>

text \<open>The \<open>mousedown\<close> listener. \<open>ctrl\<close> is \<open>e.ctrlKey || e.metaKey\<close>, \<open>now\<close> is
  \<open>Date.now()\<close>, and \<open>clickedConnection\<close> is the result of
  \<open>findConnectionAtPosition(x, y)\<close>, whose routing geometry is outside the model.\<close>

definition startDrag :: "scene \<Rightarrow> node \<Rightarrow> real \<Rightarrow> real \<Rightarrow> scene" where
  "startDrag s clickedFile px py =
     s\<lparr>draggingFile := Some (ref clickedFile),
       offsetX := px - nx (attrs clickedFile),
       offsetY := py - ny (attrs clickedFile)\<rparr>"

definition mousedown ::
    "scene \<Rightarrow> real \<Rightarrow> real \<Rightarrow> bool \<Rightarrow> nat \<Rightarrow> connection option \<Rightarrow> scene" where
  "mousedown s px py ctrl now clickedConnection =
     (if isConnecting s then
        (case findFileAtPosition (connections s) (files s) px py (files s) of
           Some clickedFile \<Rightarrow>
             (case connectionStart s of
                None \<Rightarrow> s\<lparr>connectionStart := Some (ref clickedFile)\<rparr>
              | Some start \<Rightarrow>
                  if ref clickedFile \<noteq> start then
                    resetConnectionMode
                      (case find (\<lambda>conn. (cfrom conn = start \<and> cto conn = ref clickedFile) \<or>
                                         (cfrom conn = ref clickedFile \<and> cto conn = start))
                                 (connections s) of
                         None \<Rightarrow>
                           saveState
                             (s\<lparr>connections := connections s @
                                  [\<lparr>cref = nextRef s, cid = now,
                                    cfrom = start, cto = ref clickedFile\<rparr>],
                                nextRef := Suc (nextRef s)\<rparr>)
                       | Some existingConnection \<Rightarrow> s)
                  else s)
         | None \<Rightarrow> resetConnectionMode s)
      else
        (case clickedConnection of
           Some conn \<Rightarrow> clearSelection (s\<lparr>selectedConnection := Some conn\<rparr>)
         | None \<Rightarrow>
             (case findFileAtPosition (connections s) (files s) px py (files s) of
                Some clickedFile \<Rightarrow>
                  if \<not> ctrl then
                    (let isTopLevel = ref clickedFile \<in> ref ` set (files s);
                         isSelected = isComponentSelected s (ref clickedFile)
                     in if ref clickedFile \<in> set (multiSelectedFiles s)
                        then startDrag s clickedFile px py
                        else (let s1 = (clearSelection s)
                                         \<lparr>selectedFile := Some (ref clickedFile),
                                          selectedChild :=
                                            (if isTopLevel then None else Some (ref clickedFile))\<rparr>
                              in if isTopLevel \<or> isSelected then startDrag s1 clickedFile px py
                                 else s1))
                  else (if ref clickedFile \<in> set (multiSelectedFiles s)
                        then removeFromMultiSelection s (ref clickedFile)
                        else addToMultiSelection s (ref clickedFile))
              | None \<Rightarrow>
                  (if \<not> ctrl then clearSelection s else s)
                    \<lparr>isAreaSelecting := True, selectionAreaStart := (px, py),
                     selectionAreaEnd := (px, py), selectedConnection := None\<rparr>)))"

text \<open>The \<open>mousemove\<close> listener, without hover tracking and the drop-target highlight. A
  dragged object that is no longer part of the scene is moved on its own and the scene
  does not change.\<close>

definition moveTo :: "real \<Rightarrow> real \<Rightarrow> node \<Rightarrow> node" where
  "moveTo px py n = Node (ref n) ((attrs n)\<lparr>nx := px, ny := py\<rparr>) (children n)"

definition moveBy :: "real \<Rightarrow> real \<Rightarrow> node \<Rightarrow> node" where
  "moveBy dx dy n =
     Node (ref n) ((attrs n)\<lparr>nx := nx (attrs n) + dx, ny := ny (attrs n) + dy\<rparr>) (children n)"

definition mousemove :: "scene \<Rightarrow> real \<Rightarrow> real \<Rightarrow> scene" where
  "mousemove s px py =
     (if isConnecting s \<and> connectionStart s \<noteq> None then s
      else if isAreaSelecting s then s\<lparr>selectionAreaEnd := (px, py)\<rparr>
      else (case draggingFile s of
              None \<Rightarrow> s
            | Some dragged \<Rightarrow>
                (case findNode dragged (files s) of
                   None \<Rightarrow> s
                 | Some d \<Rightarrow>
                     (let deltaX = (px - offsetX s) - nx (attrs d);
                          deltaY = (py - offsetY s) - ny (attrs d);
                          moved = modifyNode dragged
                                    (moveTo (px - offsetX s) (py - offsetY s)) (files s)
                      in s\<lparr>files :=
                             (if dragged \<in> set (multiSelectedFiles s)
                              then foldl (\<lambda>fls component.
                                            if component \<noteq> dragged
                                            then modifyNode component (moveBy deltaX deltaY) fls
                                            else fls)
                                     moved (multiSelectedFiles s)
                              else moved)\<rparr>))))"

text \<open>The single-node part of the \<open>mouseup\<close> listener, after \<open>saveState()\<close>; \<open>d\<close> is the
  object \<open>draggingFile\<close>. \<open>setChildren\<close> stores an array back into its owner,
  \<open>pushChild\<close> is \<open>dropTarget.children.push(draggingFile)\<close>, and \<open>relayoutParent\<close> is
  \<open>updateParentHeight(parent)\<close> followed by \<open>repositionChildrenInParent(parent)\<close>.\<close>

definition setChildren :: "node list \<Rightarrow> node \<Rightarrow> node" where
  "setChildren cs n = Node (ref n) (attrs n) (Some cs)"

definition pushChild :: "node \<Rightarrow> node \<Rightarrow> node" where
  "pushChild d n =
     Node (ref n) (attrs n) (case children n of None \<Rightarrow> None | Some cs \<Rightarrow> Some (cs @ [d]))"

definition relayoutParent :: "nat \<Rightarrow> node list \<Rightarrow> node list" where
  "relayoutParent p fls =
     modifyNode p repositionChildrenInParent (modifyNode p updateParentHeight fls)"

text \<open>The first step of the branch with a drop target: the dragged node is removed from
  its current container, the \<open>children\<close> of its parent or the top-level list.\<close>

definition removeFromContainer :: "scene \<Rightarrow> node \<Rightarrow> error + scene" where
  "removeFromContainer s d =
     (let currentParentInfo = findParentOfComponent (ref d) (files s) Null in
      case parent currentParentInfo of
        Obj p \<Rightarrow>
          (case plist currentParentInfo of
             None \<Rightarrow> Inl TypeError
           | Some lst \<Rightarrow>
               (case removeFile (ref d) lst s of
                  Inl e \<Rightarrow> Inl e
                | Inr (found, lst', s') \<Rightarrow>
                    Inr (s'\<lparr>files :=
                              relayoutParent (ref p)
                                (modifyNode (ref p) (setChildren lst') (files s))\<rparr>)))
      | _ \<Rightarrow>
          (case removeFile (ref d) (files s) s of
             Inl e \<Rightarrow> Inl e
           | Inr (found, lst', s') \<Rightarrow> Inr (s'\<lparr>files := lst'\<rparr>)))"

definition dropCommit :: "scene \<Rightarrow> node \<Rightarrow> real \<Rightarrow> real \<Rightarrow> scene \<times> error option" where
  "dropCommit s d px py =
     (case (if \<not> isEventBox (attrs d) then findDropTarget px py d (files s) else None) of
        Some dropTarget \<Rightarrow>
          (case removeFromContainer s d of
             Inl e \<Rightarrow> (s, Some e)
           | Inr s2 \<Rightarrow>
               (case children dropTarget of
                  None \<Rightarrow> (s2, Some TypeError)
                | Some cs \<Rightarrow>
                    (s2\<lparr>files :=
                          modifyNode (ref dropTarget) repositionChildrenInParent
                            (modifyNode (ref dropTarget) (pushChild d) (files s2)),
                        draggingFile := None\<rparr>, None)))
      | None \<Rightarrow>
          (if ref d \<in> ref ` set (files s) then (s\<lparr>draggingFile := None\<rparr>, None)
           else (let currentParentInfo = findParentOfComponent (ref d) (files s) Null in
                 case (parent currentParentInfo, plist currentParentInfo) of
                   (Obj p, Some lst) \<Rightarrow>
                     (case removeFile (ref d) lst s of
                        Inl e \<Rightarrow> (s, Some e)
                      | Inr (found, lst', s') \<Rightarrow>
                          (s'\<lparr>files :=
                                modifyNode (ref d) (moveTo (px - offsetX s) (py - offsetY s))
                                  (relayoutParent (ref p)
                                     (modifyNode (ref p) (setChildren lst') (files s) @ [d])),
                              draggingFile := None\<rparr>, None))
                 | _ \<Rightarrow> (s\<lparr>draggingFile := None\<rparr>, None))))"

text \<open>The \<open>mouseup\<close> listener. The single-node part reads the dragged object; one that is
  no longer part of the scene (deleted or replaced by undo while the button was held) has
  no value in the model, which reports \<open>DetachedReference\<close> there.\<close>

definition endAreaSelection :: "scene \<Rightarrow> bool \<Rightarrow> scene" where
  "endAreaSelection s ctrl =
     (let selectedComponents =
            selectComponentsInArea (files s)
              (fst (selectionAreaStart s)) (snd (selectionAreaStart s))
              (fst (selectionAreaEnd s)) (snd (selectionAreaEnd s));
          s1 = (if selectedComponents \<noteq> [] then
                  (if ctrl then foldl addToMultiSelection s selectedComponents
                   else (clearSelection s)\<lparr>multiSelectedFiles := selectedComponents\<rparr>)
                else (if \<not> ctrl then clearSelection s else s))
      in s1\<lparr>isAreaSelecting := False\<rparr>)"

definition mouseup :: "scene \<Rightarrow> real \<Rightarrow> real \<Rightarrow> bool \<Rightarrow> scene \<times> error option" where
  "mouseup s px py ctrl =
     (if isAreaSelecting s then (endAreaSelection s ctrl, None)
      else (case draggingFile s of
              None \<Rightarrow> (s, None)
            | Some dragged \<Rightarrow>
                (let s1 = saveState s in
                 if multiSelectedFiles s1 \<noteq> [] then (s1\<lparr>draggingFile := None\<rparr>, None)
                 else (case findNode dragged (files s1) of
                         None \<Rightarrow> (s1, Some DetachedReference)
                       | Some d \<Rightarrow> dropCommit s1 d px py))))"

text \<open>The \<open>click\<close> listener, without the configuration drawer.\<close>

definition click :: "scene \<Rightarrow> real \<Rightarrow> real \<Rightarrow> bool \<Rightarrow> bool \<Rightarrow> scene \<times> error option" where
  "click s px py ctrl shift =
     (case toggleAt px py (files s) of
        (toggled, fls, Some e) \<Rightarrow> (s\<lparr>files := fls\<rparr>, Some e)
      | (True, fls, None) \<Rightarrow> (saveState (s\<lparr>files := fls\<rparr>), None)
      | (False, fls, None) \<Rightarrow>
          (if ctrl \<and> \<not> shift then
             (case findFileAtPosition (connections s) (files s) px py (files s) of
                Some clickedFile \<Rightarrow>
                  if multiSelectedFiles s = []
                  then duplicateComponent (saveState s) clickedFile px py
                  else (s, None)
              | None \<Rightarrow> (s, None))
           else (s, None)))"

subsection \<open>Keyboard handlers\<close>

text \<open>One round of the multi-delete loop of the \<open>keydown\<close> listener. A parent returned by
  \<open>findParentOfComponent\<close> was reached through its non-empty \<open>children\<close>, so the
  \<open>children\<close> of \<open>parentInfo.parent\<close> are always there.\<close>

definition deleteSelected :: "scene \<Rightarrow> nat \<Rightarrow> scene" where
  "deleteSelected s component =
     (let parentInfo = findParentOfComponent component (files s) Null;
          fls = (case parent parentInfo of
                   Obj p \<Rightarrow>
                     (case children p of
                        None \<Rightarrow> files s
                      | Some cs \<Rightarrow>
                          if component \<in> ref ` set cs
                          then relayoutParent (ref p)
                                 (modifyNode (ref p) (setChildren (spliceOut component cs))
                                    (files s))
                          else files s)
                 | _ \<Rightarrow> spliceOut component (files s))
      in s\<lparr>files := fls,
            connections :=
              filter (\<lambda>conn. cfrom conn \<noteq> component \<and> cto conn \<noteq> component) (connections s)\<rparr>)"

text \<open>Delete or Backspace.\<close>

definition deleteKey :: "scene \<Rightarrow> scene \<times> error option" where
  "deleteKey s =
     (case selectedConnection s of
        Some sc \<Rightarrow>
          (let s1 = saveState s
           in (s1\<lparr>connections := filter (\<lambda>conn. cref conn \<noteq> cref sc) (connections s1),
                   selectedConnection := None\<rparr>, None))
      | None \<Rightarrow>
          if multiSelectedFiles s \<noteq> [] then
            (clearSelection (foldl deleteSelected (saveState s) (multiSelectedFiles s)), None)
          else (case selectedFile s of
                  Some sf \<Rightarrow>
                    (let s1 = saveState s in
                     case removeFile sf (files s1) s1 of
                       Inl e \<Rightarrow> (s1, Some e)
                     | Inr (found, fls, s2) \<Rightarrow> (clearSelection (s2\<lparr>files := fls\<rparr>), None))
                | None \<Rightarrow> (s, None)))"

text \<open>The C key.\<close>

definition toggleConnectionMode :: "scene \<Rightarrow> scene" where
  "toggleConnectionMode s =
     (if \<not> isConnecting s
      then s\<lparr>isConnecting := True, connectionStart := None, selectedFile := None,
             selectedChild := None, selectedConnection := None\<rparr>
      else resetConnectionMode (s\<lparr>isConnecting := False\<rparr>))"

subsection \<open>Toolbar and drawer actions\<close>

text \<open>\<open>clearCanvas\<close>, after the user has confirmed.\<close>

definition clearCanvas :: "scene \<Rightarrow> scene" where
  "clearCanvas s = clearSelection ((saveState s)\<lparr>files := [], connections := []\<rparr>)"

text \<open>\<open>removeConnectedHook\<close> and \<open>removeConnectedTrigger\<close> (the two have the same body):
  the first connection with the given \<open>id\<close> is removed together with the top-level event
  box it ends in. \<open>spliceFirst\<close> is \<open>findIndex\<close> followed by \<open>splice(index, 1)\<close>.\<close>

fun spliceFirst :: "('a \<Rightarrow> bool) \<Rightarrow> 'a list \<Rightarrow> 'a list" where
  "spliceFirst P [] = []"
| "spliceFirst P (x # xs) = (if P x then xs else x # spliceFirst P xs)"

definition removeConnectedHook :: "scene \<Rightarrow> nat \<Rightarrow> scene" where
  "removeConnectedHook s connectionId =
     (let s1 = saveState s in
      case find (\<lambda>conn. cid conn = connectionId) (connections s1) of
        None \<Rightarrow> s1
      | Some conn \<Rightarrow>
          s1\<lparr>files := spliceOut (cto conn) (files s1),
             connections := spliceFirst (\<lambda>conn. cid conn = connectionId) (connections s1)\<rparr>)"

subsection \<open>Rendering and event sequences\<close>

text \<open>\<open>draw()\<close> ends every handler. In the scene it rewrites geometry only: it recomputes
  \<open>w\<close> and \<open>h\<close> of what it draws and \<open>x\<close>, \<open>y\<close> of nested nodes, from text measurements of
  the canvas. The model takes the new geometry as a parameter: any assignment of
  \<open>(x, y, w, h)\<close> to the objects.\<close>

fun setGeometry :: "(nat \<Rightarrow> real \<times> real \<times> real \<times> real) \<Rightarrow> node list \<Rightarrow> node list"
  and setGeometryOf :: "(nat \<Rightarrow> real \<times> real \<times> real \<times> real) \<Rightarrow> node \<Rightarrow> node" where
  "setGeometry g [] = []"
| "setGeometry g (f # fs) = setGeometryOf g f # setGeometry g fs"
| "setGeometryOf g (Node q a ch) =
     (case g q of
        (gx, gy, gw, gh) \<Rightarrow>
          Node q (a\<lparr>nx := gx, ny := gy, nw := gw, nh := gh\<rparr>)
            (case ch of None \<Rightarrow> None | Some cs \<Rightarrow> Some (setGeometry g cs)))"

datatype event =
    FinishInput string real real
  | CreateHook string string nat
  | MouseDown real real bool nat "connection option"
  | MouseMove real real
  | MouseUp real real bool
  | Click real real bool bool
  | DeleteKey
  | UndoKey
  | ConnectKey
  | ClearCanvas
  | RemoveConnected nat
  | Draw "nat \<Rightarrow> real \<times> real \<times> real \<times> real"

text \<open>The scene after a handler has run; when the handler throws, that is the scene as
  the exception left it.\<close>

fun handle :: "scene \<Rightarrow> event \<Rightarrow> scene" where
  "handle s (FinishInput nm px py) = finishInput s nm px py"
| "handle s (CreateHook hookName hookDescription now) =
     fst (createHookFromInput s hookName hookDescription now)"
| "handle s (MouseDown px py ctrl now clickedConnection) =
     mousedown s px py ctrl now clickedConnection"
| "handle s (MouseMove px py) = mousemove s px py"
| "handle s (MouseUp px py ctrl) = fst (mouseup s px py ctrl)"
| "handle s (Click px py ctrl shift) = fst (click s px py ctrl shift)"
| "handle s DeleteKey = fst (deleteKey s)"
| "handle s UndoKey = undo s"
| "handle s ConnectKey = toggleConnectionMode s"
| "handle s ClearCanvas = clearCanvas s"
| "handle s (RemoveConnected connectionId) = removeConnectedHook s connectionId"
| "handle s (Draw g) = s\<lparr>files := setGeometry g (files s)\<rparr>"

definition run :: "scene \<Rightarrow> event list \<Rightarrow> scene" where
  "run s evs = foldl handle s evs"

subsection \<open>Predicates of the claims\<close>



text \<open>The identities of the subtree rooted at the node with identity \<open>target\<close>, or none
  when the forest has no such node.\<close>

definition subtreeRefs :: "nat \<Rightarrow> node list \<Rightarrow> nat list" where
  "subtreeRefs target fls = (case findNode target fls of None \<Rightarrow> [] | Some n \<Rightarrow> nodeRefs n)"

text \<open>The tree invariant: no object identity occurs twice in the forest, that is, no
  node is in two lists or twice in one; and every identity in use was handed out by
  the allocator.\<close>

definition wellFormed :: "scene \<Rightarrow> bool" where
  "wellFormed s \<longleftrightarrow>
     distinct (allRefs (files s)) \<and> (\<forall>r \<in> set (allRefs (files s)). r < nextRef s)"

text \<open>The identities of the nodes of a forest that have a \<open>children\<close> array, the
  nodes another node can be appended to.\<close>

fun openRefs :: "node list \<Rightarrow> nat list"
  and openNodeRefs :: "node \<Rightarrow> nat list" where
  "openRefs [] = []"
| "openRefs (f # fs) = openNodeRefs f @ openRefs fs"
| "openNodeRefs (Node q a ch) = (case ch of None \<Rightarrow> [] | Some cs \<Rightarrow> q # openRefs cs)"


section \<open>Example scenes\<close>

text \<open>A component with the fields of \<open>createNewComponent\<close> and a given box.\<close>

definition boxAttrs :: "string \<Rightarrow> real \<Rightarrow> real \<Rightarrow> real \<Rightarrow> real \<Rightarrow> attrs" where
  "boxAttrs nm px py pw ph =
     \<lparr>name = nm, nx = px, ny = py, nw = pw, nh = ph, expanded = True,
      ntype = ''Component'', pattern = [], props = [], nstate = [], hooks = [],
      events = [], nnotes = [], innerHtml = [], description = [], isEventBox = False\<rparr>"




text \<open>A dragged node with a child, a possible drop target and an event box, all under
  the point \<open>(50, 100)\<close> except the event box.\<close>

definition exDragged :: node where
  "exDragged =
     Node 0 (boxAttrs ''D'' 0 0 400 300) (Some [Node 1 (boxAttrs ''K'' 20 40 300 200) (Some [])])"

definition exTarget :: node where
  "exTarget = Node 2 (boxAttrs ''T'' 10 10 400 300) (Some [])"

definition exEventBox :: node where
  "exEventBox =
     Node 3 ((boxAttrs ''useHook'' 500 0 200 60)
               \<lparr>expanded := False, ntype := ''HOOK'', isEventBox := True\<rparr>) None"

text \<open>Two top-level components, created by double click and name entry.\<close>

definition exTwoNodes :: scene where
  "exTwoNodes = run initialScene [FinishInput ''A'' 0 0, FinishInput ''B'' 400 0]"

text \<open>Connection mode with A chosen as the start, and the scene after the second click,
  on B.\<close>

definition exConnecting :: scene where
  "exConnecting = run exTwoNodes [ConnectKey, MouseDown 50 30 False 1 None]"

definition exConnected :: scene where
  "exConnected = mousedown exConnecting 450 30 False 2 None"

text \<open>A is selected by a click and then deleted.\<close>

definition exSelected :: scene where
  "exSelected = run exTwoNodes [MouseDown 50 30 False 3 None, MouseUp 50 30 False]"

text \<open>Two Ctrl-clicks on A: the first puts A into the multi-selection (so its \<open>click\<close>
  does not duplicate), the pointer-down of the second takes it out again.\<close>

definition exCtrlClicked :: scene where
  "exCtrlClicked = run exTwoNodes
     [MouseDown 50 30 True 1 None, MouseUp 50 30 True, Click 50 30 True False,
      MouseDown 50 30 True 2 None, MouseUp 50 30 True]"

text \<open>The connection from A to B is selected by a pointer-down on its line.\<close>

definition exConnectionSelected :: scene where
  "exConnectionSelected =
     mousedown exConnected 300 20 False 3 (Some \<lparr>cref = 2, cid = 2, cfrom = 0, cto = 1\<rparr>)"

text \<open>A component A with a hook box created from the drawer, then components P and T;
  T is dragged into P, the selection is cleared by a click on the empty canvas, and T is
  selected by a click.\<close>

definition exHookScene :: scene where
  "exHookScene = run initialScene
     [FinishInput ''A'' 0 0, MouseDown 10 10 False 1 None, MouseUp 10 10 False,
      CreateHook ''useHook'' ''Hook event description'' 2,
      FinishInput ''P'' 0 200, FinishInput ''T'' 0 400,
      MouseDown 10 410 False 3 None, MouseUp 10 210 False,
      MouseDown 300 300 False 4 None, MouseUp 300 300 False,
      MouseDown 10 410 False 5 None, MouseUp 10 410 False]"






section \<open>Hit testing: priority of nested and later nodes\<close>









section \<open>Drop targets\<close>

lemma find_Some_holds: "find P xs = Some x \<Longrightarrow> P x"
  by (induction xs) (auto split: if_splits)

lemma findDropTarget_candidate:
  "findDropTarget px py d lst = Some t \<Longrightarrow> dropCandidate px py d t"
  and findDropNested_candidate:
  "findDropNested px py d lst = Some t \<Longrightarrow> dropCandidate px py d t"
proof (induction px py d lst and px py d lst rule: findDropTarget_findDropNested.induct)
  case (1 px py draggedFile lst)
  then show ?case by (auto split: option.splits if_splits dest: find_Some_holds)
next
  case (2 px py draggedFile)
  then show ?case by simp
next
  case (3 px py draggedFile q a ch fs)
  then show ?case by (auto split: option.splits if_splits)
qed

text \<open>
  Claim C8. For every point, dragged node D and node list, a node returned by
  \<open>findDropTarget\<close> is not D (it is another object), is not a descendant of D, so that
  \<open>isDescendantOf(target, D)\<close> is false for every committed reparent, and is not an event
  box; and \<open>findDropTarget\<close> returns null whenever D is an event box.
\<close>

theorem findDropTarget_sound:
  "(findDropTarget px py d lst = Some t \<longrightarrow>
      ref t \<noteq> ref d \<and> \<not> isDescendantOf t d \<and> \<not> isEventBox (attrs t)) \<and>
   (isEventBox (attrs d) \<longrightarrow> findDropTarget px py d lst = None)"
  using findDropTarget_candidate[of px py d lst t] by (auto simp: dropCandidate_def)

theorem findDropTarget_sound_witness:
  "findDropTarget 50 100 exDragged [exDragged, exEventBox, exTarget] = Some exTarget \<and>
   ref exTarget \<noteq> ref exDragged \<and> \<not> isDescendantOf exTarget exDragged \<and>
   \<not> isEventBox (attrs exTarget) \<and>
   isEventBox (attrs exEventBox) \<and>
   findDropTarget 50 100 exEventBox [exDragged, exEventBox, exTarget] = None"
proof -
  have found: "findDropTarget 50 100 exDragged [exDragged, exEventBox, exTarget] = Some exTarget"
    by (simp add: exDragged_def exTarget_def exEventBox_def boxAttrs_def dropCandidate_def
        inBox_def)
  have box: "isEventBox (attrs exEventBox)"
    by (simp add: exEventBox_def)
  show ?thesis
    using found box
      findDropTarget_sound[of 50 100 exDragged "[exDragged, exEventBox, exTarget]" exTarget]
      findDropTarget_sound[of 50 100 exEventBox "[exDragged, exEventBox, exTarget]" exTarget]
    by simp
qed

section \<open>Evaluating the example scenes\<close>

lemmas eval_defs =
  run_def initialScene_def finishInput_def createNewComponent_def createHookFromInput_def
  saveState_def currentState_def maxHistorySize_def connectionToJSON_def
  mousedown_def startDrag_def clearSelection_def isComponentSelected_def
  addToMultiSelection_def removeFromMultiSelection_def resetConnectionMode_def
  toggleConnectionMode_def hiddenEventBox_def getParentComponent_def inBox_def
  mouseup_def endAreaSelection_def isInSelectionArea_def dropCommit_def
  removeFromContainer_def dropCandidate_def
  findParentOfComponent_def dropConnectionsOf_def setChildren_def pushChild_def
  relayoutParent_def updateParentHeight_def hasChildren_def trimmedTruthy_def
  innerHtmlHeight_def moveTo_def moveBy_def mousemove_def
  click_def toggleAt_def inToggleArea_def duplicateComponent_def objectIsTruthy_def
  deleteKey_def deleteSelected_def undo_def reconstructConnections_def
  findComponentByProperties_def Let_def

section \<open>Duplication\<close>

text \<open>
  Claim C2 (the code departs from it). \<open>duplicateComponent\<close> never inserts the clone and
  never selects it: for every scene, node and click point it ends in a TypeError, at
  \<open>component.children.map\<close> for a node without \<open>children\<close> and otherwise at
  \<open>parentList.push\<close>, and leaves \<open>files\<close> and \<open>selectedFile\<close> as they were. So does the
  second Ctrl-click on A in the two-node scene, which reaches \<open>duplicateComponent\<close>.
\<close>

lemma deepCloneComponent_error:
  "deepCloneComponent n f = Inl e \<Longrightarrow> e = TypeError"
  and deepCloneChildren_error:
  "deepCloneChildren n fs = Inl e \<Longrightarrow> e = TypeError"
  by (induction n f and n fs rule: deepCloneComponent_deepCloneChildren.induct)
     (auto split: option.splits sum.splits)

theorem duplicate_never_inserts:
  "(\<forall>s originalFile px py.
      snd (duplicateComponent s originalFile px py) = Some TypeError \<and>
      files (fst (duplicateComponent s originalFile px py)) = files s \<and>
      selectedFile (fst (duplicateComponent s originalFile px py)) = selectedFile s) \<and>
   multiSelectedFiles exCtrlClicked = [] \<and>
   findFileAtPosition (connections exCtrlClicked) (files exCtrlClicked) 50 30
     (files exCtrlClicked) = Some (createNewComponent 0 ''A'' 0 0) \<and>
   snd (click exCtrlClicked 50 30 True False) = Some TypeError \<and>
   files (fst (click exCtrlClicked 50 30 True False)) = files exCtrlClicked \<and>
   selectedFile (fst (click exCtrlClicked 50 30 True False)) = None"
proof -
  have general: "snd (duplicateComponent s originalFile px py) = Some TypeError \<and>
      files (fst (duplicateComponent s originalFile px py)) = files s \<and>
      selectedFile (fst (duplicateComponent s originalFile px py)) = selectedFile s"
    for s originalFile px py
  proof (cases "deepCloneComponent (nextRef s) originalFile")
    case (Inl e)
    then show ?thesis
      using deepCloneComponent_error[OF Inl] by (simp add: duplicateComponent_def)
  next
    case (Inr r)
    then show ?thesis
      by (cases r) (simp add: duplicateComponent_def objectIsTruthy_def Let_def)
  qed
  have concrete: "multiSelectedFiles exCtrlClicked = [] \<and>
      findFileAtPosition (connections exCtrlClicked) (files exCtrlClicked) 50 30
        (files exCtrlClicked) = Some (createNewComponent 0 ''A'' 0 0) \<and>
      snd (click exCtrlClicked 50 30 True False) = Some TypeError \<and>
      files (fst (click exCtrlClicked 50 30 True False)) = files exCtrlClicked \<and>
      selectedFile (fst (click exCtrlClicked 50 30 True False)) = None"
    by (simp add: exCtrlClicked_def exTwoNodes_def eval_defs)
  show ?thesis using general concrete by blast
qed

section \<open>History snapshots and undo\<close>

text \<open>
  Claim C3 (the code departs from it). The second click of connection mode pushes the new
  connection and calls \<open>saveState\<close> afterwards, and the \<open>click\<close> listener calls
  \<open>saveState\<close> after \<open>toggleAt\<close> has flipped \<open>expanded\<close>. In both cases the topmost
  history entry is the state after the mutation and differs from the state before it:
  here for the connection from A to B in the two-node scene and for a click on the
  toggle of A.
\<close>

theorem snapshot_after_mutation:
  "connections exConnecting = [] \<and>
   map (\<lambda>conn. (cfrom conn, cto conn)) (connections exConnected) = [(0, 1)] \<and>
   last (history exConnected) = currentState exConnected \<and>
   last (history exConnected) \<noteq> currentState exConnecting \<and>
   map (expanded \<circ> attrs) (files exTwoNodes) = [True, True] \<and>
   snd (click exTwoNodes 10 10 False False) = None \<and>
   map (expanded \<circ> attrs) (files (fst (click exTwoNodes 10 10 False False))) = [False, True] \<and>
   last (history (fst (click exTwoNodes 10 10 False False))) =
     currentState (fst (click exTwoNodes 10 10 False False)) \<and>
   last (history (fst (click exTwoNodes 10 10 False False))) \<noteq> currentState exTwoNodes"
  by (simp add: exConnected_def exConnecting_def exTwoNodes_def eval_defs)

text \<open>
  Claim C6 (the code departs from it). Undo after the connection from A to B has been
  created restores the tree but not the connections: the scene had none before the
  operation and has one after the undo, because the snapshot was taken after the push.
  And where the snapshot is taken in time (A selected, then deleted, then undo), the
  restored tree consists of new objects while the restored \<open>selectedFile\<close> is the old
  object, which is not a node of the restored tree.
\<close>

theorem undo_keeps_connection:
  "connections exConnecting = [] \<and>
   toJSONList (files (undo exConnected)) = toJSONList (files exConnecting) \<and>
   map (\<lambda>conn. (cfrom conn, cto conn)) (connections (undo exConnected)) = [(3, 4)] \<and>
   allRefs (files (undo exConnected)) = [3, 4] \<and>
   selectedFile exSelected = Some 0 \<and>
   allRefs (files exSelected) = [0, 1] \<and>
   selectedFile (run exSelected [DeleteKey, UndoKey]) = Some 0 \<and>
   allRefs (files (run exSelected [DeleteKey, UndoKey])) = [2, 3] \<and>
   toJSONList (files (run exSelected [DeleteKey, UndoKey])) = toJSONList (files exSelected)"
  by (simp add: exConnected_def exConnecting_def exSelected_def exTwoNodes_def eval_defs)

section \<open>Selection\<close>

text \<open>
  Claim C9 (the code departs from it). With the connection from A to B selected, a
  pointer-down on A that hits no connection selects A and leaves \<open>selectedConnection\<close>
  set: a node and a connection are selected at once.
\<close>

theorem node_and_connection_selected:
  "selectedConnection exConnectionSelected = Some \<lparr>cref = 2, cid = 2, cfrom = 0, cto = 1\<rparr> \<and>
   selectedFile exConnectionSelected = None \<and>
   multiSelectedFiles exConnectionSelected = [] \<and>
   selectedFile (mousedown exConnectionSelected 50 30 False 4 None) = Some 0 \<and>
   selectedConnection (mousedown exConnectionSelected 50 30 False 4 None) =
     Some \<lparr>cref = 2, cid = 2, cfrom = 0, cto = 1\<rparr>"
  by (simp add: exConnectionSelected_def exConnected_def exConnecting_def exTwoNodes_def
      eval_defs)

section \<open>Removal\<close>

lemma exHookScene_eval:
  "exHookScene\<lparr>history := []\<rparr> =
     \<lparr>files =
        [Node 0 (boxAttrs ''A'' 0 0 160 40) (Some []),
         Node 1 ((boxAttrs ''useHook'' 410 0 200 60)
                   \<lparr>expanded := False, ntype := ''HOOK'',
                    description := ''Hook event description'', isEventBox := True\<rparr>) None,
         Node 3 (boxAttrs ''P'' 0 200 160 125)
           (Some [Node 4 (boxAttrs ''T'' 0 400 160 40) (Some [])])],
      connections = [\<lparr>cref = 2, cid = 2, cfrom = 0, cto = 1\<rparr>],
      selectedFile = Some 4, selectedChild = Some 4, multiSelectedFiles = [],
      selectedConnection = None, isConnecting = False, connectionStart = None,
      draggingFile = None, offsetX = 10, offsetY = 10, isAreaSelecting = False,
      selectionAreaStart = (300, 300), selectionAreaEnd = (300, 300),
      history = [], nextRef = 5\<rparr>"
  by (simp add: exHookScene_def boxAttrs_def eval_defs)

text \<open>
  Claim C10 (the code departs from it). In the scene with the top-level list A, hook box,
  P and with T nested in P, \<open>removeFile(T, files)\<close> throws a TypeError: T is not
  top-level, the loop reaches the hook box, which has no \<open>children\<close>, before P, and
  \<open>removeFile(target, undefined)\<close> fails at \<open>list.indexOf\<close>. The Delete key with T
  selected ends in that exception and removes nothing.
\<close>

theorem removeFile_throws_after_event_box:
  "files exHookScene =
     [Node 0 (boxAttrs ''A'' 0 0 160 40) (Some []),
      Node 1 ((boxAttrs ''useHook'' 410 0 200 60)
                \<lparr>expanded := False, ntype := ''HOOK'',
                 description := ''Hook event description'', isEventBox := True\<rparr>) None,
      Node 3 (boxAttrs ''P'' 0 200 160 125)
        (Some [Node 4 (boxAttrs ''T'' 0 400 160 40) (Some [])])] \<and>
   selectedFile exHookScene = Some 4 \<and>
   removeFile 4 (files exHookScene) exHookScene = Inl TypeError \<and>
   snd (deleteKey exHookScene) = Some TypeError \<and>
   files (fst (deleteKey exHookScene)) = files exHookScene"
proof -
  have fls: "files exHookScene =
     [Node 0 (boxAttrs ''A'' 0 0 160 40) (Some []),
      Node 1 ((boxAttrs ''useHook'' 410 0 200 60)
                \<lparr>expanded := False, ntype := ''HOOK'',
                 description := ''Hook event description'', isEventBox := True\<rparr>) None,
      Node 3 (boxAttrs ''P'' 0 200 160 125)
        (Some [Node 4 (boxAttrs ''T'' 0 400 160 40) (Some [])])]"
    using arg_cong[OF exHookScene_eval, of files] by simp
  have sel: "selectedFile exHookScene = Some 4"
    using arg_cong[OF exHookScene_eval, of selectedFile] by simp
  have conn: "selectedConnection exHookScene = None"
    using arg_cong[OF exHookScene_eval, of selectedConnection] by simp
  have multi: "multiSelectedFiles exHookScene = []"
    using arg_cong[OF exHookScene_eval, of multiSelectedFiles] by simp
  have throws: "removeFile 4 (files exHookScene) s = Inl TypeError" for s
    by (simp add: fls)
  show ?thesis
    using fls sel throws
    by (simp add: deleteKey_def conn multi saveState_def Let_def)
qed

section \<open>Connections\<close>





section \<open>Identities of a forest\<close>

lemma allRefs_append [simp]: "allRefs (xs @ ys) = allRefs xs @ allRefs ys"
  by (induction xs) auto




lemma findNode_None:
  "r \<notin> set (allRefs fs) \<Longrightarrow> findNode r fs = None"
  and findNodeIn_None:
  "r \<notin> set (nodeRefs f) \<Longrightarrow> findNodeIn r f = None"
  by (induction r fs and r f rule: findNode_findNodeIn.induct) (auto split: option.splits)









lemma subtreeRefs_absent: "t \<notin> set (allRefs fs) \<Longrightarrow> subtreeRefs t fs = []"
  by (simp add: subtreeRefs_def findNode_None)

section \<open>Deleting a node\<close>



declare removeFile.simps(1) [simp del]









section \<open>Updating a forest\<close>








lemma modifyNode_same_refs:
  "(\<And>n. nodeRefs (f n) = nodeRefs n) \<Longrightarrow> allRefs (modifyNode r f fs) = allRefs fs"
  and modifyIn_same_refs:
  "(\<And>n. nodeRefs (f n) = nodeRefs n) \<Longrightarrow> nodeRefs (modifyIn r f n0) = nodeRefs n0"
  by (induction r f fs and r f n0 rule: modifyNode_modifyIn.induct) (auto split: option.splits)

lemma modifyNode_append [simp]:
  "modifyNode r f (xs @ ys) = modifyNode r f xs @ modifyNode r f ys"
  by (induction xs) auto



section \<open>The tree invariant\<close>

lemma updateParentHeight_refs [simp]: "nodeRefs (updateParentHeight n) = nodeRefs n"
  by (cases n) (simp add: updateParentHeight_def Let_def)

lemma repositionChildrenInParent_refs [simp]:
  "nodeRefs (repositionChildrenInParent n) = nodeRefs n"
  and repositionChildren_refs [simp]:
  "allRefs (repositionChildren cs) = allRefs cs"
  by (induction n and cs rule: repositionChildrenInParent_repositionChildren.induct)
     (auto split: option.splits)

lemma moveTo_refs [simp]: "nodeRefs (moveTo px py n) = nodeRefs n"
  by (cases n) (simp add: moveTo_def)

lemma moveBy_refs [simp]: "nodeRefs (moveBy dx dy n) = nodeRefs n"
  by (cases n) (simp add: moveBy_def)

lemma relayoutParent_refs [simp]: "allRefs (relayoutParent p fls) = allRefs fls"
  by (simp add: relayoutParent_def modifyNode_same_refs)

lemma setGeometry_refs [simp]:
  "allRefs (setGeometry g fs) = allRefs fs"
  and setGeometryOf_refs [simp]:
  "nodeRefs (setGeometryOf g f) = nodeRefs f"
  by (induction g fs and g f rule: setGeometry_setGeometryOf.induct)
     (auto split: option.splits prod.splits)

lemma updateAllParentHeights_refs [simp]:
  "allRefs (fst (updateAllParentHeights fs)) = allRefs fs"
proof (induction fs rule: updateAllParentHeights.induct)
  case 1
  then show ?case by simp
next
  case (2 q a ch fs)
  show ?case
  proof (cases "expanded a")
    case False
    then show ?thesis using "2.IH"(3)[OF False] by (auto split: prod.splits)
  next
    case True
    show ?thesis
    proof (cases ch)
      case None
      then show ?thesis using True by (simp add: Let_def)
    next
      case (Some cs)
      obtain cs' e where r:
        "(if cs \<noteq> [] then updateAllParentHeights cs else (cs, None)) = (cs', e)"
        by (cases "if cs \<noteq> [] then updateAllParentHeights cs else (cs, None)") auto
      have kids: "allRefs cs' = allRefs cs"
      proof (cases "cs = []")
        case True
        then show ?thesis using r by simp
      next
        case False
        then show ?thesis using "2.IH"(1)[OF True refl Some False] r by simp
      qed
      show ?thesis
      proof (cases e)
        case None
        have "allRefs (fst (updateAllParentHeights fs)) = allRefs fs"
          using "2.IH"(2)[OF True refl Some _ refl, of cs'] r None by simp
        then show ?thesis
          using True Some r None kids by (auto simp: Let_def split: prod.splits)
      next
        case (Some err)
        then show ?thesis
          using True \<open>ch = Some cs\<close> r kids by (simp add: Let_def)
      qed
    qed
  qed
qed


lemma fromJSON_refs:
  "fromJSON n j = (f, n') \<Longrightarrow> nodeRefs f = [n..<n'] \<and> n < n'"
  and fromJSONList_refs:
  "fromJSONList n js = (fs, n') \<Longrightarrow> allRefs fs = [n..<n'] \<and> n \<le> n'"
proof (induction n j and n js arbitrary: f n' and fs n' rule: fromJSON_fromJSONList.induct)
  case (1 n a ch)
  show ?case
  proof (cases ch)
    case None
    then show ?thesis using "1.prems" by auto
  next
    case (Some cs)
    then obtain cs' where rec: "fromJSONList (Suc n) cs = (cs', n')" and f: "f = Node n a (Some cs')"
      using "1.prems" by (auto split: prod.splits)
    have "allRefs cs' = [Suc n..<n'] \<and> Suc n \<le> n'" using "1.IH"[OF Some rec] .
    then show ?thesis using f by (simp add: upt_conv_Cons)
  qed
next
  case (2 n)
  then show ?case by simp
next
  case (3 n j js)
  from "3.prems" obtain f0 n1 fs0 where
    h: "fromJSON n j = (f0, n1)" and t: "fromJSONList n1 js = (fs0, n')" and fs: "fs = f0 # fs0"
    by (auto split: prod.splits)
  have a: "nodeRefs f0 = [n..<n1] \<and> n < n1" using "3.IH"(1)[OF h] .
  have b: "allRefs fs0 = [n1..<n'] \<and> n1 \<le> n'" using "3.IH"(2)[OF h[symmetric] t] .
  have "[n..<n'] = [n..<n1] @ [n1..<n']"
    using a b upt_add_eq_append[of n n1 "n' - n1"] by simp
  then show ?case using a b fs by simp
qed




lemma wf_saveState [simp]: "wellFormed (saveState s) = wellFormed s"
  by (simp add: wellFormed_def saveState_def Let_def)















lemma setChildren_refs [simp]: "nodeRefs (setChildren cs n) = ref n # allRefs cs"
  by (simp add: setChildren_def)





lemma wf_clearSelection [simp]: "wellFormed (clearSelection s) = wellFormed s"
  by (simp add: wellFormed_def clearSelection_def)
















section \<open>The drag commit keeps every node\<close>

lemma openRefs_append [simp]: "openRefs (xs @ ys) = openRefs xs @ openRefs ys"
  by (induction xs) auto





lemma modifyNode_same_open:
  "(\<And>n. openNodeRefs (f n) = openNodeRefs n) \<Longrightarrow> openRefs (modifyNode r f fs) = openRefs fs"
  and modifyIn_same_open:
  "(\<And>n. openNodeRefs (f n) = openNodeRefs n) \<Longrightarrow>
   openNodeRefs (modifyIn r f n0) = openNodeRefs n0"
  by (induction r f fs and r f n0 rule: modifyNode_modifyIn.induct) (auto split: option.splits)













lemma updateParentHeight_open [simp]: "openNodeRefs (updateParentHeight n) = openNodeRefs n"
  by (cases n) (simp add: updateParentHeight_def Let_def)

lemma repositionChildrenInParent_open [simp]:
  "openNodeRefs (repositionChildrenInParent n) = openNodeRefs n"
  and repositionChildren_open [simp]:
  "openRefs (repositionChildren cs) = openRefs cs"
  by (induction n and cs rule: repositionChildrenInParent_repositionChildren.induct)
     (auto split: option.splits)

lemma moveTo_open [simp]: "openNodeRefs (moveTo px py n) = openNodeRefs n"
  by (cases n) (simp add: moveTo_def)

lemma relayoutParent_open [simp]: "openRefs (relayoutParent p fls) = openRefs fls"
  by (simp add: relayoutParent_def modifyNode_same_open)






end
